theory Spec2Isabelle
  imports Main
begin

section \<open>twirpotel: tracing interceptors for twirp servers and clients\<close>

text \<open>
  A shallow embedding of \<^verbatim>\<open>twirpotel.go\<close>. The package decorates a twirp method with an
  OpenTelemetry span. Everything the package calls but does not define (the twirp error
  type, the context accessors, the tracer and its span) is represented by the data the
  package reads from it and by a record of the calls the package makes on it.
\<close>

subsection \<open>Attributes and the exported constants\<close>

type_synonym Key = string

text \<open>\<^verbatim>\<open>attribute.Value\<close>: the package only ever builds string values.\<close>

datatype Value = BoolValue bool | Int64Value int | StringValue string

record KeyValue =
  Key :: Key
  Value :: Value

definition InstrumentationName :: string where
  "InstrumentationName = ''github.com/bakins/twirpotel''"

definition PackageNameKey :: Key where
  "PackageNameKey = ''twirp.package''"

definition ServiceNameKey :: Key where
  "ServiceNameKey = ''twirp.service''"

definition MethodNameKey :: Key where
  "MethodNameKey = ''twirp.method''"

definition ErrorCodeKey :: Key where
  "ErrorCodeKey = ''twirp.error_code''"

definition ErrorMessageKey :: Key where
  "ErrorMessageKey = ''twirp.error_message''"

definition NoErrorCode :: Value where
  "NoErrorCode = StringValue ''ok''"

text \<open>
  The keys of \<^verbatim>\<open>semconv/v1.10.0\<close> that the package uses, and \<^verbatim>\<open>Key.String\<close>, which pairs
  a key with a string value.
\<close>

definition RPCSystemKey :: Key where
  "RPCSystemKey = ''rpc.system''"

definition RPCServiceKey :: Key where
  "RPCServiceKey = ''rpc.service''"

definition RPCMethodKey :: Key where
  "RPCMethodKey = ''rpc.method''"

definition Key_String :: "Key \<Rightarrow> string \<Rightarrow> KeyValue" where
  "Key_String k v = \<lparr>Key = k, Value = StringValue v\<rparr>"

subsection \<open>Errors\<close>

text \<open>
  A non-nil Go \<^verbatim>\<open>error\<close> either has a dynamic type that implements \<^verbatim>\<open>twirp.Error\<close>, and
  then answers \<^verbatim>\<open>Code()\<close>, \<^verbatim>\<open>Msg()\<close> and \<^verbatim>\<open>Error()\<close>, or it does not, and then only
  \<^verbatim>\<open>Error()\<close> is known of it. The type assertion \<^verbatim>\<open>err.(twirp.Error)\<close> looks at the
  dynamic type of the value itself (it does not unwrap), so it is the case distinction on
  \<open>error\<close>. The nil error is \<open>None\<close> of \<open>error option\<close>.
\<close>

type_synonym ErrorCode = string

record twirp_Error =
  Code :: ErrorCode
  Msg :: string
  ErrorString :: string

datatype error = TwirpError twirp_Error | PlainError string

fun Error_text :: "error \<Rightarrow> string" where
  "Error_text (TwirpError t) = ErrorString t"
| "Error_text (PlainError s) = s"

definition Internal :: ErrorCode where
  "Internal = ''internal''"

text \<open>
  Modelled from the spec: \<^verbatim>\<open>twirp.InternalErrorWith\<close> belongs to the RPC framework and is
  not part of this package. The spec describes it as the framework's standard wrapping:
  the code is the framework's internal-error code and the message is made from the
  original error's text. This definition follows the framework's documented behaviour
  (an \<^verbatim>\<open>Internal\<close> error whose message is \<^verbatim>\<open>err.Error()\<close>). The functions of the package
  below take the constructor as an argument, so that what is proved of them holds for
  whatever the framework's constructor returns; this definition is the instance.
\<close>

definition twirp_InternalErrorWith :: "error \<Rightarrow> twirp_Error" where
  "twirp_InternalErrorWith err =
     \<lparr>Code = Internal, Msg = Error_text err,
      ErrorString = ''twirp error '' @ Internal @ '': '' @ Error_text err\<rparr>"

subsection \<open>Tracer providers, spans and the call context\<close>

text \<open>
  A \<^verbatim>\<open>trace.TracerProvider\<close> is an object of the tracing backend; only its identity
  matters here. \<open>Provider n\<close> is the provider object number \<open>n\<close>; the no-op provider is
  the one a context without a span answers with. A nil provider is \<open>None\<close>.
\<close>

datatype TracerProvider = noopTracerProvider | Provider nat

text \<open>What the package reads of a span found in a context: whether its span context
  is valid, and the provider that made it.\<close>

record SpanRef =
  SpanContext_IsValid :: bool
  Span_TracerProvider :: TracerProvider

definition noopSpan :: SpanRef where
  "noopSpan = \<lparr>SpanContext_IsValid = False, Span_TracerProvider = noopTracerProvider\<rparr>"

text \<open>
  A \<^verbatim>\<open>context.Context\<close>, as far as the package reads it: the three names that twirp
  stores for the call, each present or absent, and the current span, present or absent.
\<close>

record Context =
  ctx_PackageName :: "string option"
  ctx_ServiceName :: "string option"
  ctx_MethodName :: "string option"
  ctx_Span :: "SpanRef option"

text \<open>\<^verbatim>\<open>twirp.PackageName\<close>, \<^verbatim>\<open>twirp.ServiceName\<close>, \<^verbatim>\<open>twirp.MethodName\<close>: the stored name
  and \<^verbatim>\<open>true\<close>, or the empty string and \<^verbatim>\<open>false\<close>.\<close>

definition twirp_PackageName :: "Context \<Rightarrow> string \<times> bool" where
  "twirp_PackageName ctx = (case ctx_PackageName ctx of None \<Rightarrow> ('''', False) | Some n \<Rightarrow> (n, True))"

definition twirp_ServiceName :: "Context \<Rightarrow> string \<times> bool" where
  "twirp_ServiceName ctx = (case ctx_ServiceName ctx of None \<Rightarrow> ('''', False) | Some n \<Rightarrow> (n, True))"

definition twirp_MethodName :: "Context \<Rightarrow> string \<times> bool" where
  "twirp_MethodName ctx = (case ctx_MethodName ctx of None \<Rightarrow> ('''', False) | Some n \<Rightarrow> (n, True))"

text \<open>\<^verbatim>\<open>trace.SpanFromContext\<close>: the current span, or the no-op span when there is none.\<close>

definition SpanFromContext :: "Context \<Rightarrow> SpanRef" where
  "SpanFromContext ctx = (case ctx_Span ctx of None \<Rightarrow> noopSpan | Some s \<Rightarrow> s)"

definition ContextWithSpan :: "Context \<Rightarrow> SpanRef \<Rightarrow> Context" where
  "ContextWithSpan ctx s = ctx\<lparr>ctx_Span := Some s\<rparr>"

text \<open>
  What a call reads of the tracing library: the process-wide provider that
  \<^verbatim>\<open>otel.GetTracerProvider()\<close> returns at that moment, and whether the span that the
  tracer starts for this call gets a valid span context (the backend decides that).
\<close>

record otel =
  GetTracerProvider :: TracerProvider
  StartsValid :: bool

datatype SpanKind =
  SpanKindUnspecified | SpanKindInternal | SpanKindServer | SpanKindClient
  | SpanKindProducer | SpanKindConsumer

datatype codes_Code = codes_Unset | codes_Error | codes_Ok

text \<open>
  The span of one call is the record of what the package asked of the backend: the
  tracer that started it (provider and instrumentation name), the name, kind and
  attributes given to \<^verbatim>\<open>Start\<close>, and then, in order, the calls made on the span.
\<close>

datatype SpanCall =
  SetStatusCall codes_Code string
  | SetAttributesCall "KeyValue list"
  | EndCall

record Tracer =
  tracer_provider :: TracerProvider
  tracer_name :: string

record Span =
  span_tracer :: Tracer
  span_name :: string
  span_kind :: SpanKind
  span_attributes :: "KeyValue list"
  span_calls :: "SpanCall list"

definition TracerProvider_Tracer :: "TracerProvider \<Rightarrow> string \<Rightarrow> Tracer" where
  "TracerProvider_Tracer p n = \<lparr>tracer_provider = p, tracer_name = n\<rparr>"

definition tracer_Start ::
  "otel \<Rightarrow> Tracer \<Rightarrow> Context \<Rightarrow> string \<Rightarrow> KeyValue list \<Rightarrow> SpanKind \<Rightarrow> Context \<times> Span" where
  "tracer_Start env tracer ctx name attrs kind =
     (ContextWithSpan ctx
        \<lparr>SpanContext_IsValid = StartsValid env, Span_TracerProvider = tracer_provider tracer\<rparr>,
      \<lparr>span_tracer = tracer, span_name = name, span_kind = kind,
       span_attributes = attrs, span_calls = []\<rparr>)"

definition span_SetStatus :: "codes_Code \<Rightarrow> string \<Rightarrow> Span \<Rightarrow> Span" where
  "span_SetStatus code description span =
     span\<lparr>span_calls := span_calls span @ [SetStatusCall code description]\<rparr>"

definition span_SetAttributes :: "KeyValue list \<Rightarrow> Span \<Rightarrow> Span" where
  "span_SetAttributes kvs span = span\<lparr>span_calls := span_calls span @ [SetAttributesCall kvs]\<rparr>"

definition span_End :: "Span \<Rightarrow> Span" where
  "span_End span = span\<lparr>span_calls := span_calls span @ [EndCall]\<rparr>"

subsection \<open>Configuration\<close>

record config =
  provider :: "TracerProvider option"

definition getTracerProvider :: "config \<Rightarrow> otel \<Rightarrow> Context \<Rightarrow> TracerProvider" where
  "getTracerProvider c env ctx =
     (case provider c of
        Some p \<Rightarrow> p
      | None \<Rightarrow>
          (let span = SpanFromContext ctx
           in if SpanContext_IsValid span then Span_TracerProvider span
              else GetTracerProvider env))"

text \<open>
  \<^verbatim>\<open>Option\<close> has an unexported method, so its only values are the ones
  \<^verbatim>\<open>WithTracerProvider\<close> returns, and the nil interface. An element of the options slice is
  therefore an \<open>Option option\<close>, \<open>None\<close> being nil.
\<close>

datatype Option = WithTracerProvider "TracerProvider option"

fun Option_apply :: "Option \<Rightarrow> config \<Rightarrow> config" where
  "Option_apply (WithTracerProvider p) c = c\<lparr>provider := p\<rparr>"

datatype panic = NilDereference | PanicValue string

text \<open>The loop over the options at the start of \<^verbatim>\<open>interceptor\<close>. Calling \<^verbatim>\<open>apply\<close> on
  a nil \<^verbatim>\<open>Option\<close> panics.\<close>

fun apply_options :: "Option option list \<Rightarrow> config \<Rightarrow> panic + config" where
  "apply_options [] c = Inr c"
| "apply_options (None # os) c = Inl NilDereference"
| "apply_options (Some o1 # os) c = apply_options os (Option_apply o1 c)"

subsection \<open>Attribute derivation\<close>

definition commonAtrributes :: "Context \<Rightarrow> string \<times> KeyValue list" where
  "commonAtrributes ctx =
     (let packageName = fst (twirp_PackageName ctx);
          serviceName = fst (twirp_ServiceName ctx);
          methodName = fst (twirp_MethodName ctx);
          fullMethod = packageName @ ''.'' @ serviceName @ ''/'' @ methodName
      in (fullMethod,
          [\<lparr>Key = PackageNameKey, Value = StringValue packageName\<rparr>,
           \<lparr>Key = ServiceNameKey, Value = StringValue serviceName\<rparr>,
           \<lparr>Key = MethodNameKey, Value = StringValue methodName\<rparr>,
           Key_String RPCSystemKey ''twirp'',
           Key_String RPCMethodKey methodName,
           Key_String RPCServiceKey (packageName @ ''.'' @ serviceName)]))"

text \<open>The second step of \<^verbatim>\<open>getTwirpErrorAttributes\<close>: the type assertion, and the
  framework's wrapping when it fails.\<close>

definition classify :: "(error \<Rightarrow> twirp_Error) \<Rightarrow> error \<Rightarrow> twirp_Error" where
  "classify InternalErrorWith err =
     (case err of TwirpError twerr \<Rightarrow> twerr | PlainError s \<Rightarrow> InternalErrorWith err)"

definition getTwirpErrorAttributes ::
  "(error \<Rightarrow> twirp_Error) \<Rightarrow> error option \<Rightarrow> KeyValue list" where
  "getTwirpErrorAttributes InternalErrorWith err =
     (case err of
        None \<Rightarrow> [\<lparr>Key = ErrorCodeKey, Value = NoErrorCode\<rparr>]
      | Some e \<Rightarrow>
          (let twerr = classify InternalErrorWith e
           in [\<lparr>Key = ErrorCodeKey, Value = StringValue (Code twerr)\<rparr>,
               \<lparr>Key = ErrorMessageKey, Value = StringValue (Msg twerr)\<rparr>]))"

subsection \<open>The interceptor\<close>

text \<open>
  A \<^verbatim>\<open>twirp.Method\<close> takes a context and a request and either returns a response and an
  error (nil or not), or panics.
\<close>

datatype 'resp outcome = Returns 'resp "error option" | Panics panic

type_synonym ('req, 'resp) Method = "Context \<Rightarrow> 'req \<Rightarrow> 'resp outcome"

text \<open>\<^verbatim>\<open>defer\<close>: the deferred call runs when the rest of the function has returned or
  panicked, and the return or the panic then goes on to the caller.\<close>

definition deferred :: "(Span \<Rightarrow> Span) \<Rightarrow> 'resp outcome \<times> Span \<Rightarrow> 'resp outcome \<times> Span" where
  "deferred f r = (fst r, f (snd r))"

text \<open>
  The method that the interceptor returns for \<open>next\<close>, with the configuration \<open>c\<close> that
  the factory captured. It yields what the caller gets and the span as the backend has
  seen it when the call is over.
\<close>

definition intercepted ::
  "(error \<Rightarrow> twirp_Error) \<Rightarrow> SpanKind \<Rightarrow> config \<Rightarrow> ('req, 'resp) Method \<Rightarrow>
   otel \<Rightarrow> Context \<Rightarrow> 'req \<Rightarrow> 'resp outcome \<times> Span" where
  "intercepted InternalErrorWith kind c next env ctx req =
     (let tracer = TracerProvider_Tracer (getTracerProvider c env ctx) InstrumentationName;
          (fullMethod, attributes) = commonAtrributes ctx;
          (ctx', span) = tracer_Start env tracer ctx fullMethod attributes kind
      in deferred span_End
           (case next ctx' req of
              Panics v \<Rightarrow> (Panics v, span)
            | Returns resp err \<Rightarrow>
                (let span1 = (case err of
                                None \<Rightarrow> span
                              | Some e \<Rightarrow> span_SetStatus codes_Error (Error_text e) span);
                     span2 = span_SetAttributes (getTwirpErrorAttributes InternalErrorWith err) span1
                 in (Returns resp err, span2))))"

definition interceptor ::
  "(error \<Rightarrow> twirp_Error) \<Rightarrow> SpanKind \<Rightarrow> Option option list \<Rightarrow>
   panic + (('req, 'resp) Method \<Rightarrow> otel \<Rightarrow> Context \<Rightarrow> 'req \<Rightarrow> 'resp outcome \<times> Span)" where
  "interceptor InternalErrorWith kind options =
     (case apply_options options \<lparr>provider = None\<rparr> of
        Inl p \<Rightarrow> Inl p
      | Inr c \<Rightarrow> Inr (intercepted InternalErrorWith kind c))"

definition ServerInterceptor ::
  "(error \<Rightarrow> twirp_Error) \<Rightarrow> Option option list \<Rightarrow>
   panic + (('req, 'resp) Method \<Rightarrow> otel \<Rightarrow> Context \<Rightarrow> 'req \<Rightarrow> 'resp outcome \<times> Span)" where
  "ServerInterceptor InternalErrorWith options = interceptor InternalErrorWith SpanKindServer options"

definition ClientInterceptor ::
  "(error \<Rightarrow> twirp_Error) \<Rightarrow> Option option list \<Rightarrow>
   panic + (('req, 'resp) Method \<Rightarrow> otel \<Rightarrow> Context \<Rightarrow> 'req \<Rightarrow> 'resp outcome \<times> Span)" where
  "ClientInterceptor InternalErrorWith options = interceptor InternalErrorWith SpanKindClient options"

text \<open>The context that \<open>next\<close> is called with: the one \<^verbatim>\<open>tracer.Start\<close> returns.\<close>

definition started_context :: "config \<Rightarrow> otel \<Rightarrow> Context \<Rightarrow> Context" where
  "started_context c env ctx =
     ContextWithSpan ctx
       \<lparr>SpanContext_IsValid = StartsValid env,
        Span_TracerProvider = getTracerProvider c env ctx\<rparr>"

text \<open>Predicates used to state the properties below.\<close>

fun is_StringValue :: "Value \<Rightarrow> bool" where
  "is_StringValue (StringValue s) = True"
| "is_StringValue (BoolValue b) = False"
| "is_StringValue (Int64Value i) = False"

fun is_SetStatusCall :: "SpanCall \<Rightarrow> bool" where
  "is_SetStatusCall (SetStatusCall code description) = True"
| "is_SetStatusCall (SetAttributesCall kvs) = False"
| "is_SetStatusCall EndCall = False"

fun is_EndCall :: "SpanCall \<Rightarrow> bool" where
  "is_EndCall EndCall = True"
| "is_EndCall (SetStatusCall code description) = False"
| "is_EndCall (SetAttributesCall kvs) = False"

text \<open>A context with no names and no span, and an environment, for the examples.\<close>

definition background :: Context where
  "background = \<lparr>ctx_PackageName = None, ctx_ServiceName = None, ctx_MethodName = None,
                  ctx_Span = None\<rparr>"

definition example_env :: otel where
  "example_env = \<lparr>GetTracerProvider = Provider 0, StartsValid = True\<rparr>"

section \<open>Properties\<close>

subsection \<open>What one call does\<close>

lemma tracer_Start_context:
  "fst (tracer_Start env (TracerProvider_Tracer (getTracerProvider c env ctx) n) ctx name attrs kind)
     = started_context c env ctx"
  by (simp add: tracer_Start_def started_context_def TracerProvider_Tracer_def)

lemma intercepted_outcome:
  "fst (intercepted InternalErrorWith kind c next env ctx req) = next (started_context c env ctx) req"
  by (simp add: intercepted_def deferred_def Let_def tracer_Start_def started_context_def
      TracerProvider_Tracer_def split: prod.splits outcome.splits)

lemma intercepted_calls:
  "span_calls (snd (intercepted InternalErrorWith kind c next env ctx req)) =
     (case next (started_context c env ctx) req of
        Panics v \<Rightarrow> [EndCall]
      | Returns resp None \<Rightarrow>
          [SetAttributesCall (getTwirpErrorAttributes InternalErrorWith None), EndCall]
      | Returns resp (Some e) \<Rightarrow>
          [SetStatusCall codes_Error (Error_text e),
           SetAttributesCall (getTwirpErrorAttributes InternalErrorWith (Some e)), EndCall])"
  by (simp add: intercepted_def deferred_def Let_def tracer_Start_def started_context_def
      TracerProvider_Tracer_def span_End_def span_SetStatus_def span_SetAttributes_def
      split: prod.splits outcome.splits option.splits)

lemma intercepted_start:
  "span_tracer (snd (intercepted InternalErrorWith kind c next env ctx req)) =
     \<lparr>tracer_provider = getTracerProvider c env ctx, tracer_name = InstrumentationName\<rparr>"
  "span_name (snd (intercepted InternalErrorWith kind c next env ctx req)) = fst (commonAtrributes ctx)"
  "span_kind (snd (intercepted InternalErrorWith kind c next env ctx req)) = kind"
  "span_attributes (snd (intercepted InternalErrorWith kind c next env ctx req)) = snd (commonAtrributes ctx)"
  by (simp_all add: intercepted_def deferred_def Let_def tracer_Start_def
      TracerProvider_Tracer_def span_End_def span_SetStatus_def span_SetAttributes_def
      split: prod.splits outcome.splits option.splits)

lemma config_update_provider: "(c::config)\<lparr>provider := p\<rparr> = \<lparr>provider = p\<rparr>"
  by (cases c) simp

lemma apply_options_map_Some:
  "apply_options (map Some os) c = Inr (foldl (\<lambda>c o1. Option_apply o1 c) c os)"
  by (induction os arbitrary: c) simp_all

lemma apply_options_append:
  "apply_options (map Some os @ [Some o1]) c =
     Inr (Option_apply o1 (foldl (\<lambda>c o1. Option_apply o1 c) c os))"
  by (induction os arbitrary: c) simp_all

subsection \<open>Error classification\<close>

text \<open>
  C1. For an error that does not implement \<^verbatim>\<open>twirp.Error\<close>, the classification returns the
  code and the message of \<^verbatim>\<open>twirp.InternalErrorWith\<close> applied to the error, as the values
  of \<^verbatim>\<open>twirp.error_code\<close> and \<^verbatim>\<open>twirp.error_message\<close>. This holds whatever the framework's
  constructor returns; with the framework's constructor as modelled, the code is the
  internal-error code \<^verbatim>\<open>internal\<close> and the message is the text of the original error.
\<close>

theorem C1_unclassified_becomes_internal:
  "getTwirpErrorAttributes InternalErrorWith (Some (PlainError s)) =
     [\<lparr>Key = ''twirp.error_code'', Value = StringValue (Code (InternalErrorWith (PlainError s)))\<rparr>,
      \<lparr>Key = ''twirp.error_message'', Value = StringValue (Msg (InternalErrorWith (PlainError s)))\<rparr>]
   \<and> getTwirpErrorAttributes twirp_InternalErrorWith (Some (PlainError s)) =
     [\<lparr>Key = ErrorCodeKey, Value = StringValue Internal\<rparr>,
      \<lparr>Key = ErrorMessageKey, Value = StringValue s\<rparr>]"
  by (simp add: getTwirpErrorAttributes_def classify_def twirp_InternalErrorWith_def
      ErrorCodeKey_def ErrorMessageKey_def Let_def)

text \<open>
  C2. For the nil error the classification returns exactly one attribute,
  \<^verbatim>\<open>twirp.error_code\<close> with the value \<^verbatim>\<open>ok\<close>, and no attribute with the key
  \<^verbatim>\<open>twirp.error_message\<close>. When the wrapped call returns a nil error, that single
  attribute is all that the interceptor attaches to the span after the call.
\<close>

theorem C2_nil_error_is_ok:
  "getTwirpErrorAttributes InternalErrorWith None =
     [\<lparr>Key = ''twirp.error_code'', Value = StringValue ''ok''\<rparr>]
   \<and> length (getTwirpErrorAttributes InternalErrorWith None) = 1
   \<and> ErrorMessageKey \<notin> Key ` set (getTwirpErrorAttributes InternalErrorWith None)
   \<and> (next (started_context c env ctx) req = Returns resp None \<longrightarrow>
        span_calls (snd (intercepted InternalErrorWith kind c next env ctx req)) =
          [SetAttributesCall [\<lparr>Key = ErrorCodeKey, Value = NoErrorCode\<rparr>], EndCall])"
  by (simp add: getTwirpErrorAttributes_def intercepted_calls ErrorCodeKey_def
      ErrorMessageKey_def NoErrorCode_def)

theorem C2_nil_error_is_ok_witness:
  "span_calls (snd (intercepted twirp_InternalErrorWith SpanKindServer \<lparr>provider = None\<rparr>
      (\<lambda>ctx req. Returns (Suc req) None) example_env background (1::nat))) =
     [SetAttributesCall [\<lparr>Key = ''twirp.error_code'', Value = StringValue ''ok''\<rparr>], EndCall]"
  using C2_nil_error_is_ok [of twirp_InternalErrorWith "\<lambda>ctx req. Returns (Suc req) None"
      "\<lparr>provider = None\<rparr>" example_env background "1::nat" "Suc 1" SpanKindServer]
  by (simp add: ErrorCodeKey_def NoErrorCode_def)

text \<open>
  C3. An error that implements \<^verbatim>\<open>twirp.Error\<close> is classified by its own code and message,
  unchanged. Classification is idempotent: classifying the result of a classification
  gives that result again, and so the same two attributes.
\<close>

theorem C3_classified_passes_through:
  "getTwirpErrorAttributes InternalErrorWith (Some (TwirpError t)) =
     [\<lparr>Key = ''twirp.error_code'', Value = StringValue (Code t)\<rparr>,
      \<lparr>Key = ''twirp.error_message'', Value = StringValue (Msg t)\<rparr>]
   \<and> classify InternalErrorWith (TwirpError t) = t
   \<and> classify InternalErrorWith (TwirpError (classify InternalErrorWith e)) =
       classify InternalErrorWith e
   \<and> getTwirpErrorAttributes InternalErrorWith (Some (TwirpError (classify InternalErrorWith e))) =
       getTwirpErrorAttributes InternalErrorWith (Some e)"
  by (simp add: getTwirpErrorAttributes_def classify_def ErrorCodeKey_def ErrorMessageKey_def Let_def)

subsection \<open>Pass-through of the result\<close>

text \<open>
  C4. Whatever response and error the wrapped method returns, on the context that the
  tracer's \<^verbatim>\<open>Start\<close> gave and the request of the caller, the intercepted method returns that
  response and that error; this holds for every interceptor that the factory builds.
  The error is the value that the wrapped method returned, also when it does not
  implement \<^verbatim>\<open>twirp.Error\<close> and the attributes carry its internal-error classification.
\<close>

theorem C4_result_passes_through:
  assumes "apply_options options \<lparr>provider = None\<rparr> = Inr c"
    and "next (started_context c env ctx) req = Returns resp err"
  shows "\<exists>f. interceptor InternalErrorWith kind options = Inr f
           \<and> fst (f next env ctx req) = Returns resp err
           \<and> fst (intercepted InternalErrorWith kind c next env ctx req) = Returns resp err"
  using assms by (simp add: interceptor_def intercepted_outcome)

theorem C4_result_passes_through_witness:
  "apply_options [] \<lparr>provider = None\<rparr> = Inr \<lparr>provider = None\<rparr>
   \<and> (\<exists>f. interceptor twirp_InternalErrorWith SpanKindClient [] = Inr f
         \<and> fst (f (\<lambda>ctx req. Returns (Suc req) (Some (PlainError ''testing'')))
                  example_env background (1::nat))
             = Returns (Suc 1) (Some (PlainError ''testing''))
         \<and> fst (intercepted twirp_InternalErrorWith SpanKindClient \<lparr>provider = None\<rparr>
                  (\<lambda>ctx req. Returns (Suc req) (Some (PlainError ''testing'')))
                  example_env background (1::nat))
             = Returns (Suc 1) (Some (PlainError ''testing'')))"
  using C4_result_passes_through
    [of "[]" "\<lparr>provider = None\<rparr>"
       "\<lambda>ctx req. Returns (Suc req) (Some (PlainError ''testing''))"
       example_env background "1::nat" "Suc 1" "Some (PlainError ''testing'')"
       twirp_InternalErrorWith SpanKindClient]
  by simp

subsection \<open>Span name and base attributes\<close>

text \<open>
  C5. The span name is the concatenation of the package name, a dot, the service name,
  a slash and the method name, each name being the one stored in the context or the
  empty string when there is none. For \<^verbatim>\<open>p\<close>, \<^verbatim>\<open>S\<close>, \<^verbatim>\<open>M\<close> it is \<^verbatim>\<open>p.S/M\<close>; with no names it
  is \<^verbatim>\<open>./\<close>. It is the name under which the interceptor starts the span.
\<close>

theorem C5_span_name:
  "fst (commonAtrributes ctx) =
      (case ctx_PackageName ctx of None \<Rightarrow> [] | Some p \<Rightarrow> p) @ ''.'' @
      (case ctx_ServiceName ctx of None \<Rightarrow> [] | Some s \<Rightarrow> s) @ ''/'' @
      (case ctx_MethodName ctx of None \<Rightarrow> [] | Some m \<Rightarrow> m)
   \<and> fst (commonAtrributes \<lparr>ctx_PackageName = Some ''p'', ctx_ServiceName = Some ''S'',
                             ctx_MethodName = Some ''M'', ctx_Span = sp\<rparr>) = ''p.S/M''
   \<and> fst (commonAtrributes \<lparr>ctx_PackageName = None, ctx_ServiceName = None,
                             ctx_MethodName = None, ctx_Span = sp\<rparr>) = ''./''
   \<and> fst (commonAtrributes \<lparr>ctx_PackageName = Some [], ctx_ServiceName = Some [],
                             ctx_MethodName = Some [], ctx_Span = sp\<rparr>) = ''./''
   \<and> span_name (snd (intercepted InternalErrorWith kind c next env ctx req)) =
       fst (commonAtrributes ctx)"
  by (simp add: commonAtrributes_def twirp_PackageName_def twirp_ServiceName_def
      twirp_MethodName_def intercepted_start Let_def split: option.splits)

text \<open>
  C7. The base attributes are six, all string-valued and in this order:
  \<^verbatim>\<open>twirp.package\<close>, \<^verbatim>\<open>twirp.service\<close> and \<^verbatim>\<open>twirp.method\<close> with the names read from the
  context, the RPC system attribute with the value \<^verbatim>\<open>twirp\<close>, the RPC method attribute with
  the method name and the RPC service attribute with package, dot, service. They are the
  attributes with which the interceptor starts the span.
\<close>

theorem C7_base_attributes:
  "snd (commonAtrributes ctx) =
     [\<lparr>Key = ''twirp.package'', Value = StringValue (fst (twirp_PackageName ctx))\<rparr>,
      \<lparr>Key = ''twirp.service'', Value = StringValue (fst (twirp_ServiceName ctx))\<rparr>,
      \<lparr>Key = ''twirp.method'', Value = StringValue (fst (twirp_MethodName ctx))\<rparr>,
      \<lparr>Key = RPCSystemKey, Value = StringValue ''twirp''\<rparr>,
      \<lparr>Key = RPCMethodKey, Value = StringValue (fst (twirp_MethodName ctx))\<rparr>,
      \<lparr>Key = RPCServiceKey,
       Value = StringValue (fst (twirp_PackageName ctx) @ ''.'' @ fst (twirp_ServiceName ctx))\<rparr>]
   \<and> length (snd (commonAtrributes ctx)) = 6
   \<and> list_all (\<lambda>kv. is_StringValue (Value kv)) (snd (commonAtrributes ctx))
   \<and> span_attributes (snd (intercepted InternalErrorWith kind c next env ctx req)) =
       snd (commonAtrributes ctx)"
  by (simp add: commonAtrributes_def Key_String_def PackageNameKey_def ServiceNameKey_def
      MethodNameKey_def intercepted_start Let_def)

subsection \<open>Tracer provider\<close>

text \<open>
  C6. The provider is resolved in three tiers: the configured provider when there is
  one; otherwise the provider of the span in the context when that span's context is
  valid; otherwise the process-wide provider. The resolver is a total function of the
  configuration, the process-wide provider as it is at the call and the context of the
  call, and each call of the intercepted method resolves with its own context and
  environment.
\<close>

theorem C6_provider_resolution:
  "(provider c = Some p \<longrightarrow> getTracerProvider c env ctx = p)
   \<and> (provider c = None \<and> ctx_Span ctx = Some s \<and> SpanContext_IsValid s \<longrightarrow>
        getTracerProvider c env ctx = Span_TracerProvider s)
   \<and> (provider c = None \<and> ctx_Span ctx = Some s \<and> \<not> SpanContext_IsValid s \<longrightarrow>
        getTracerProvider c env ctx = GetTracerProvider env)
   \<and> (provider c = None \<and> ctx_Span ctx = None \<longrightarrow>
        getTracerProvider c env ctx = GetTracerProvider env)
   \<and> span_tracer (snd (intercepted InternalErrorWith kind c next env ctx req)) =
       \<lparr>tracer_provider = getTracerProvider c env ctx, tracer_name = ''github.com/bakins/twirpotel''\<rparr>"
  by (simp add: getTracerProvider_def SpanFromContext_def noopSpan_def intercepted_start
      InstrumentationName_def Let_def)

theorem C6_provider_resolution_witness:
  "getTracerProvider \<lparr>provider = Some (Provider 1)\<rparr> example_env background = Provider 1
   \<and> getTracerProvider \<lparr>provider = None\<rparr> example_env
        (background\<lparr>ctx_Span := Some \<lparr>SpanContext_IsValid = True, Span_TracerProvider = Provider 2\<rparr>\<rparr>)
       = Provider 2
   \<and> getTracerProvider \<lparr>provider = None\<rparr> example_env
        (background\<lparr>ctx_Span := Some \<lparr>SpanContext_IsValid = False, Span_TracerProvider = Provider 2\<rparr>\<rparr>)
       = Provider 0
   \<and> getTracerProvider \<lparr>provider = None\<rparr> example_env background = Provider 0"
  using
    C6_provider_resolution [of "\<lparr>provider = Some (Provider 1)\<rparr>" "Provider 1" example_env background
      noopSpan twirp_InternalErrorWith SpanKindServer "\<lambda>ctx req. Returns req None" "()"]
    C6_provider_resolution [of "\<lparr>provider = None\<rparr>" noopTracerProvider example_env
      "background\<lparr>ctx_Span := Some \<lparr>SpanContext_IsValid = True, Span_TracerProvider = Provider 2\<rparr>\<rparr>"
      "\<lparr>SpanContext_IsValid = True, Span_TracerProvider = Provider 2\<rparr>"
      twirp_InternalErrorWith SpanKindServer "\<lambda>ctx req. Returns req None" "()"]
    C6_provider_resolution [of "\<lparr>provider = None\<rparr>" noopTracerProvider example_env
      "background\<lparr>ctx_Span := Some \<lparr>SpanContext_IsValid = False, Span_TracerProvider = Provider 2\<rparr>\<rparr>"
      "\<lparr>SpanContext_IsValid = False, Span_TracerProvider = Provider 2\<rparr>"
      twirp_InternalErrorWith SpanKindServer "\<lambda>ctx req. Returns req None" "()"]
    C6_provider_resolution [of "\<lparr>provider = None\<rparr>" noopTracerProvider example_env background
      noopSpan twirp_InternalErrorWith SpanKindServer "\<lambda>ctx req. Returns req None" "()"]
  by (simp add: background_def example_env_def)

text \<open>
  C10. The options are applied from first to last, each to the configuration that the
  previous ones left. So the configuration that the factory captures has the provider
  of the last \<^verbatim>\<open>WithTracerProvider\<close> in the list, and when that provider is not nil every
  call of the intercepted method starts its span with it.
\<close>

theorem C10_last_option_wins:
  "apply_options (map Some os) c = Inr (foldl (\<lambda>c o1. Option_apply o1 c) c os)
   \<and> apply_options (map Some os @ [Some (WithTracerProvider p)]) c = Inr (c\<lparr>provider := p\<rparr>)
   \<and> apply_options [Some (WithTracerProvider (Some (Provider 1))),
                     Some (WithTracerProvider (Some (Provider 2)))] \<lparr>provider = None\<rparr>
       = Inr \<lparr>provider = Some (Provider 2)\<rparr>
   \<and> interceptor InternalErrorWith kind (map Some os @ [Some (WithTracerProvider p)]) =
       Inr (intercepted InternalErrorWith kind \<lparr>provider = p\<rparr>)
   \<and> tracer_provider (span_tracer
        (snd (intercepted InternalErrorWith kind \<lparr>provider = Some q\<rparr> next env ctx req))) = q"
  by (simp add: apply_options_map_Some apply_options_append interceptor_def intercepted_start
      getTracerProvider_def config_update_provider)

subsection \<open>Status and end of the span\<close>

text \<open>
  C8. The interceptor sets the status of the span exactly when the wrapped call returned
  an error that is not nil: then it sets it once, to the error code with the text of
  \<^verbatim>\<open>err.Error()\<close> as description. When the error is nil it sets no status.
\<close>

theorem C8_error_status:
  "filter is_SetStatusCall (span_calls (snd (intercepted InternalErrorWith kind c next env ctx req))) =
     (case next (started_context c env ctx) req of
        Returns resp (Some e) \<Rightarrow> [SetStatusCall codes_Error (Error_text e)]
      | Returns resp None \<Rightarrow> []
      | Panics v \<Rightarrow> [])"
  by (simp add: intercepted_calls split: outcome.splits option.splits)

text \<open>
  C9. Every call of the intercepted method ends its span exactly once, as the last call
  on the span, whether the wrapped method returns or panics. When it panics, the panic
  goes on to the caller and ending the span is the only call made on it.
\<close>

theorem C9_span_ended_once:
  "length (filter is_EndCall (span_calls (snd (intercepted InternalErrorWith kind c next env ctx req)))) = 1
   \<and> last (span_calls (snd (intercepted InternalErrorWith kind c next env ctx req))) = EndCall
   \<and> fst (intercepted InternalErrorWith kind c (\<lambda>ctx req. Panics v) env ctx req) = Panics v
   \<and> span_calls (snd (intercepted InternalErrorWith kind c (\<lambda>ctx req. Panics v) env ctx req)) =
       [EndCall]"
  by (simp add: intercepted_calls intercepted_outcome split: outcome.splits option.splits)

end
